theory Spec2Isabelle
  imports Complex_Main
begin

section \<open>Python values and errors\<close>

text \<open>
  The exceptions the modelled code can raise. Python's unbounded integers are
  \<^typ>\<open>int\<close>. A finite Python float is a \<^typ>\<open>real\<close>: rounding to the nearest
  double is left out. In the learning-rate schedule the range of a double is
  kept, since it decides what kind of result the code gives: an integer too
  large for a double raises OverflowError when it is converted, a power too
  small for a double is zero, and a quotient too large for a double is an
  infinity.
\<close>

datatype py_error = ZeroDivisionError | TypeError | ValueError | OverflowError

text \<open>What a float operation returns: a finite value, or one of the infinities.\<close>

datatype py_float = Finite real | PosInf | NegInf

text \<open>What \<^verbatim>\<open>**\<close> on two integers returns: an integer, or a (finite) float.\<close>

datatype py_num = PyInt int | PyFloat real

text \<open>
  The least magnitude that no longer rounds to a finite double: halfway
  between the largest double, \<open>2^1024 - 2^971\<close>, and \<open>2^1024\<close>. And the
  largest magnitude that rounds to zero: half the smallest subnormal double.
\<close>

definition dbl_overflow :: int where
  "dbl_overflow = 2 ^ 1024 - 2 ^ 970"

definition dbl_underflow :: real where
  "dbl_underflow = 1 / 2 ^ 1075"

section \<open>train.py: the learning-rate schedule\<close>

text \<open>
  The conversion of a Python integer to a float, as the float operations do
  it to an integer operand: OverflowError when the integer is beyond the
  range of a double.
\<close>

definition float_of_int :: "int \<Rightarrow> py_error + real" where
  "float_of_int i = (if \<bar>i\<bar> < dbl_overflow then Inr (of_int i) else Inl OverflowError)"

text \<open>
  \<^verbatim>\<open>b ** k\<close> on two integers with a negative exponent: Python converts both to
  floats and takes the float power. A zero base raises ZeroDivisionError; a
  power too small for a double is \<open>0.0\<close>. (The base is an integer, so the
  power of a non-zero base has magnitude at most 1 and cannot overflow.)
\<close>

definition float_pow :: "int \<Rightarrow> int \<Rightarrow> py_error + real" where
  "float_pow b k =
     (case float_of_int b of
        Inl e \<Rightarrow> Inl e
      | Inr x \<Rightarrow>
          (case float_of_int k of
             Inl e \<Rightarrow> Inl e
           | Inr y \<Rightarrow>
               if x = 0 then Inl ZeroDivisionError
               else if \<bar>x powi k\<bar> \<le> dbl_underflow then Inr 0
               else Inr (x powi k)))"

text \<open>
  \<^verbatim>\<open>reduce_lr_factor ** num_reductions\<close> on two Python integers: the exact
  integer power for a non-negative exponent, the float power for a negative
  one.
\<close>

definition py_int_pow :: "int \<Rightarrow> int \<Rightarrow> py_error + py_num" where
  "py_int_pow b k =
     (if 0 \<le> k then Inr (PyInt (b ^ nat k))
      else case float_pow b k of Inl e \<Rightarrow> Inl e | Inr p \<Rightarrow> Inr (PyFloat p))"

text \<open>
  \<^verbatim>\<open>x / y\<close> on two floats: ZeroDivisionError for a zero divisor; a quotient
  beyond the range of a double is an infinity, with no exception.
\<close>

definition float_div :: "real \<Rightarrow> real \<Rightarrow> py_error + py_float" where
  "float_div x y =
     (if y = 0 then Inl ZeroDivisionError
      else if \<bar>x / y\<bar> < of_int dbl_overflow then Inr (Finite (x / y))
      else if 0 < x / y then Inr PosInf
      else Inr NegInf)"

text \<open>
  \<^verbatim>\<open>starting_lr / reduction_factor\<close> with a float numerator: an integer divisor
  is converted to a float first.
\<close>

definition float_truediv :: "real \<Rightarrow> py_num \<Rightarrow> py_error + py_float" where
  "float_truediv x d =
     (case d of
        PyFloat y \<Rightarrow> float_div x y
      | PyInt i \<Rightarrow> (case float_of_int i of Inl e \<Rightarrow> Inl e | Inr y \<Rightarrow> float_div x y))"

text \<open>\<^verbatim>\<open>max(a, q)\<close> of a finite float and the result of a division.\<close>

definition py_max :: "real \<Rightarrow> py_float \<Rightarrow> py_float" where
  "py_max a q =
     (case q of Finite b \<Rightarrow> Finite (max a b) | PosInf \<Rightarrow> PosInf | NegInf \<Rightarrow> Finite a)"

text \<open>
  \<^verbatim>\<open>get_schedule_function(starting_lr, reduce_lr_every_n_epochs,
  reduce_lr_factor, min_learning_rate)\<close> returns the closure \<^verbatim>\<open>scheduler\<close>; the
  model is the closure applied to its epoch. The types are those train.py
  passes: the two rates are (finite) floats, the interval and the factor are
  integers (argparse \<^verbatim>\<open>type=int\<close>), the epoch is the integer Keras hands to the
  callback. \<^verbatim>\<open>epoch // n\<close> is floor division, which is \<open>div\<close> on \<^typ>\<open>int\<close>, and
  raises ZeroDivisionError for \<open>n = 0\<close>.
\<close>

definition scheduler :: "real \<Rightarrow> int \<Rightarrow> int \<Rightarrow> real \<Rightarrow> int \<Rightarrow> py_error + py_float" where
  "scheduler starting_lr reduce_lr_every_n_epochs reduce_lr_factor min_learning_rate epoch =
     (if reduce_lr_every_n_epochs = 0 then Inl ZeroDivisionError
      else
        let num_reductions = epoch div reduce_lr_every_n_epochs in
        case py_int_pow reduce_lr_factor num_reductions of
          Inl e \<Rightarrow> Inl e
        | Inr reduction_factor \<Rightarrow>
            (case float_truediv starting_lr reduction_factor of
               Inl e \<Rightarrow> Inl e
             | Inr q \<Rightarrow> Inr (py_max min_learning_rate q)))"

section \<open>train.py: the steps-per-epoch estimate\<close>

text \<open>
  What \<^verbatim>\<open>json.load\<close> returns for a field of a game record. \<^verbatim>\<open>len\<close> is defined on
  strings, lists and dicts and raises TypeError on the other values. A game
  record is a dict from field names to values.
\<close>

datatype json =
    JNull
  | JBool bool
  | JNumber real
  | JString string
  | JArray "json list"
  | JObject "(string \<times> json) list"

type_synonym game = "string \<rightharpoonup> json"

fun py_len :: "json \<Rightarrow> py_error + nat" where
  "py_len (JString s) = Inr (length s)"
| "py_len (JArray xs) = Inr (length xs)"
| "py_len (JObject kvs) = Inr (length (remdups (map fst kvs)))"
| "py_len _ = Inl TypeError"

text \<open>\<^verbatim>\<open>x / y\<close> with a float numerator.\<close>

definition py_truediv :: "real \<Rightarrow> real \<Rightarrow> py_error + real" where
  "py_truediv x y = (if y = 0 then Inl ZeroDivisionError else Inr (x / y))"

text \<open>\<^verbatim>\<open>int(x)\<close> on a float truncates towards zero.\<close>

definition py_int :: "real \<Rightarrow> int" where
  "py_int x = (if 0 \<le> x then \<lfloor>x\<rfloor> else \<lceil>x\<rceil>)"

text \<open>
  The inner loop \<^verbatim>\<open>for game in games\<close>, with the running total \<^verbatim>\<open>moves\<close> passed
  along: a game with a \<^verbatim>\<open>"tcn"\<close> field adds \<^verbatim>\<open>len(game["tcn"]) / 2\<close>, a game
  without one adds nothing.
\<close>

fun count_games :: "game list \<Rightarrow> real \<Rightarrow> py_error + real" where
  "count_games [] moves = Inr moves"
| "count_games (game # rest) moves =
     (case game ''tcn'' of
        None \<Rightarrow> count_games rest moves
      | Some tcn \<Rightarrow>
          (case py_len tcn of
             Inl e \<Rightarrow> Inl e
           | Inr n \<Rightarrow> count_games rest (moves + real n / 2)))"

text \<open>
  The outer loop \<^verbatim>\<open>for path in paths\<close>: each file has been loaded to its list of
  game records.
\<close>

fun count_files :: "game list list \<Rightarrow> real \<Rightarrow> py_error + real" where
  "count_files [] moves = Inr moves"
| "count_files (games # rest) moves =
     (case count_games games moves of
        Inl e \<Rightarrow> Inl e
      | Inr moves' \<Rightarrow> count_files rest moves')"

text \<open>The value passed as \<^verbatim>\<open>steps_per_epoch\<close>: \<^verbatim>\<open>int(moves / args.batch_size)\<close>.\<close>

definition steps_per_epoch :: "game list list \<Rightarrow> int \<Rightarrow> py_error + int" where
  "steps_per_epoch files batch_size =
     (case count_files files 0 of
        Inl e \<Rightarrow> Inl e
      | Inr moves \<Rightarrow>
          (case py_truediv moves (of_int batch_size) of
             Inl e \<Rightarrow> Inl e
           | Inr q \<Rightarrow> Inr (py_int q)))"

section \<open>Tensors and the TensorFlow primitives tf\_net.py calls\<close>

text \<open>
  A tensor carries its element type, its shape (batch dimension first) and its
  elements in row-major order. Element values are idealised as reals.
\<close>

datatype DType = float16 | bfloat16 | float32 | float64

record tensor =
  dtype :: DType
  shape :: "nat list"
  elems :: "real list"

text \<open>
  \<^verbatim>\<open>tf.cast(x, d)\<close>: the same tensor with element type \<open>d\<close>.
\<close>

definition tf_cast :: "tensor \<Rightarrow> DType \<Rightarrow> tensor" where
  "tf_cast x d = x\<lparr>dtype := d\<rparr>"

text \<open>
  \<^verbatim>\<open>tf.keras.layers.Reshape(target_shape)\<close> applied to a batch: the batch
  dimension stays, every sample takes the target shape; a sample whose number
  of elements is not the target's is refused.
\<close>

definition Reshape :: "nat list \<Rightarrow> tensor \<Rightarrow> py_error + tensor" where
  "Reshape target_shape x =
     (case shape x of
        [] \<Rightarrow> Inl ValueError
      | batch # rest \<Rightarrow>
          if prod_list rest = prod_list target_shape
          then Inr (x\<lparr>shape := batch # target_shape\<rparr>)
          else Inl ValueError)"

section \<open>tf\_net.py: the network\<close>

text \<open>
  A layer object is a function of the current values of the model's variables
  (the explicit store \<open>'p\<close>) and of its input tensor. The layer classes come
  from \<^verbatim>\<open>src.models.tf_layers\<close>; the network takes them as the record of their
  constructors, each with the keyword arguments in the order tf\_net.py
  writes them.
\<close>

type_synonym 'p layer = "'p \<Rightarrow> tensor \<Rightarrow> tensor"

record 'p tf_layers =
  ConvBlock :: "int \<Rightarrow> int \<Rightarrow> bool \<Rightarrow> bool \<Rightarrow> string \<Rightarrow> 'p layer"
  ResidualBlock :: "int \<Rightarrow> int \<Rightarrow> bool \<Rightarrow> string \<Rightarrow> 'p layer"
  ConvolutionalPolicyHead :: "int \<Rightarrow> bool \<Rightarrow> 'p layer"
  ConvolutionalValueOrMovesLeftHead :: "int \<Rightarrow> int \<Rightarrow> int \<Rightarrow> bool \<Rightarrow> bool \<Rightarrow> 'p layer"

record ('p, 's) LeelaZeroNet =
  input_reshape :: "tensor \<Rightarrow> py_error + tensor"
  input_block :: "'p layer"
  residual_blocks :: "'p layer list"
  policy_head :: "'p layer"
  value_head :: "'p layer"
  moves_left_head :: "'p layer"
  policy_loss_weight :: 's
  value_loss_weight :: 's
  moves_left_loss_weight :: 's

text \<open>\<^verbatim>\<open>str(i)\<close> for the \<open>i\<close> of \<^verbatim>\<open>range(num_residual_blocks)\<close>.\<close>

fun str_nat :: "nat \<Rightarrow> string" where
  "str_nat n =
     (if n < 10 then [''0123456789'' ! n]
      else str_nat (n div 10) @ [''0123456789'' ! (n mod 10)])"

text \<open>
  \<^verbatim>\<open>LeelaZeroNet.__init__\<close>. \<^verbatim>\<open>range(num_residual_blocks)\<close> is empty for a count
  below one.
\<close>

definition LeelaZeroNet_init ::
  "'p tf_layers \<Rightarrow> int \<Rightarrow> int \<Rightarrow> int \<Rightarrow> bool \<Rightarrow> 's \<Rightarrow> 's \<Rightarrow> 's \<Rightarrow> ('p, 's) LeelaZeroNet" where
  "LeelaZeroNet_init tfl num_filters num_residual_blocks se_ratio constrain_norms
       policy_loss_weight' value_loss_weight' moves_left_loss_weight' =
     \<lparr> input_reshape = Reshape [112, 8, 8],
       input_block = ConvBlock tfl 3 num_filters constrain_norms True ''input_block'',
       residual_blocks =
         map (\<lambda>i. ResidualBlock tfl num_filters se_ratio constrain_norms
                     (''residual_block_'' @ str_nat i))
             [0..<nat num_residual_blocks],
       policy_head = ConvolutionalPolicyHead tfl num_filters constrain_norms,
       value_head = ConvolutionalValueOrMovesLeftHead tfl 3 32 128 constrain_norms False,
       moves_left_head = ConvolutionalValueOrMovesLeftHead tfl 1 8 128 constrain_norms True,
       policy_loss_weight = policy_loss_weight',
       value_loss_weight = value_loss_weight',
       moves_left_loss_weight = moves_left_loss_weight' \<rparr>"

text \<open>
  The loop \<^verbatim>\<open>for residual_block in self.residual_blocks: flow = residual_block(flow)\<close>.
\<close>

fun apply_residual_blocks :: "'p layer list \<Rightarrow> 'p \<Rightarrow> tensor \<Rightarrow> tensor" where
  "apply_residual_blocks [] \<theta> flow = flow"
| "apply_residual_blocks (residual_block # rest) \<theta> flow =
     apply_residual_blocks rest \<theta> (residual_block \<theta> flow)"

text \<open>\<^verbatim>\<open>LeelaZeroNet.call\<close>; an exception of the reshape leaves the call.\<close>

definition call ::
  "('p, 's) LeelaZeroNet \<Rightarrow> 'p \<Rightarrow> tensor \<Rightarrow> py_error + (tensor \<times> tensor \<times> tensor)" where
  "call net \<theta> inputs =
     (case input_reshape net inputs of
        Inl e \<Rightarrow> Inl e
      | Inr reshaped \<Rightarrow>
          let flow = input_block net \<theta> reshaped;
              flow = apply_residual_blocks (residual_blocks net) \<theta> flow;
              policy_out = policy_head net \<theta> flow;
              value_out = value_head net \<theta> flow;
              moves_left_out = moves_left_head net \<theta> flow
          in Inr (tf_cast policy_out float32,
                  tf_cast value_out float32,
                  tf_cast moves_left_out float32))"

section \<open>tf\_net.py: the training step\<close>

text \<open>
  The three loss functions come from \<^verbatim>\<open>src.models.tf_losses\<close>; each maps a
  target and an output to a scalar of type \<open>'s\<close>, the scalars the gradient tape
  traces. The loss weights are scalars of the same type, and \<open>*\<close> and \<open>+\<close> are
  that type's multiplication and addition, whatever they are.
\<close>

record 's tf_losses =
  policy_loss :: "tensor \<Rightarrow> tensor \<Rightarrow> 's"
  value_loss :: "tensor \<Rightarrow> tensor \<Rightarrow> 's"
  moves_left_loss :: "tensor \<Rightarrow> tensor \<Rightarrow> 's"

text \<open>
  The optimizer the model was compiled with: an object with state \<open>'o\<close>.
  \<^verbatim>\<open>get_scaled_loss\<close> and \<^verbatim>\<open>get_unscaled_gradients\<close> read the state;
  \<^verbatim>\<open>apply_gradients\<close>, given the gradients paired with the variables, returns
  the new optimizer state and the new values of the variables.
\<close>

record ('s, 'g, 'p, 'o) optimizer =
  get_scaled_loss :: "'o \<Rightarrow> 's \<Rightarrow> 's"
  get_unscaled_gradients :: "'o \<Rightarrow> 'g \<Rightarrow> 'g"
  apply_gradients :: "'o \<Rightarrow> 'g \<Rightarrow> 'p \<Rightarrow> 'o \<times> 'p"

text \<open>
  \<^verbatim>\<open>LeelaZeroNet.train_step\<close>. \<open>tape_gradient target \<theta>\<close> is
  \<^verbatim>\<open>tape.gradient(target, self.trainable_variables)\<close>, \<open>global_policy_name\<close> is
  \<^verbatim>\<open>tf.keras.mixed_precision.global_policy().name\<close>. The state is the optimizer's
  state and the variables' values; the step returns the dict of the four
  losses (in insertion order) and the new state.
\<close>

definition train_step ::
  "('s::{times,plus}) tf_losses \<Rightarrow> ('s, 'g, 'p, 'o) optimizer \<Rightarrow> ('s \<Rightarrow> 'p \<Rightarrow> 'g) \<Rightarrow> string \<Rightarrow>
   ('p, 's) LeelaZeroNet \<Rightarrow> 'o \<times> 'p \<Rightarrow> tensor \<times> tensor \<times> tensor \<times> tensor \<Rightarrow>
   py_error + ((string \<times> 's) list \<times> 'o \<times> 'p)" where
  "train_step losses opt tape_gradient global_policy_name net state inputs =
     (case (state, inputs) of
        ((\<sigma>, \<theta>), (input_planes, policy_target, wdl_target, moves_left_target)) \<Rightarrow>
     (case call net \<theta> input_planes of
        Inl e \<Rightarrow> Inl e
      | Inr (policy_out, value_out, moves_left_out) \<Rightarrow>
          let p_loss = policy_loss losses policy_target policy_out;
              v_loss = value_loss losses wdl_target value_out;
              ml_loss = moves_left_loss losses moves_left_target moves_left_out;
              total_loss =
                policy_loss_weight net * p_loss
                + value_loss_weight net * v_loss
                + moves_left_loss_weight net * ml_loss;
              gradients =
                (if global_policy_name = ''mixed_float16'' then
                   let scaled_loss = get_scaled_loss opt \<sigma> total_loss;
                       scaled_gradients = tape_gradient scaled_loss \<theta>
                   in get_unscaled_gradients opt \<sigma> scaled_gradients
                 else tape_gradient total_loss \<theta>)
          in Inr ([(''policy_loss'', p_loss),
                   (''value_loss'', v_loss),
                   (''moves_left_loss'', ml_loss),
                   (''loss'', total_loss)],
                  apply_gradients opt \<sigma> gradients \<theta>)))"

section \<open>The residual tower as the specification describes it\<close>

text \<open>
  \<open>blocks_in_sequence block k\<close> applies the blocks \<open>block 0\<close>, ..., \<open>block (k - 1)\<close>
  one after the other, each to the output of the one before.
\<close>

fun blocks_in_sequence :: "(nat \<Rightarrow> 'p layer) \<Rightarrow> nat \<Rightarrow> 'p \<Rightarrow> tensor \<Rightarrow> tensor" where
  "blocks_in_sequence block 0 \<theta> x = x"
| "blocks_in_sequence block (Suc k) \<theta> x = block k \<theta> (blocks_in_sequence block k \<theta> x)"

text \<open>
  The tower in the specification's words: reshape the raw input to the fixed
  spatial shape 112 x 8 x 8, apply one input convolution block, then the N
  residual blocks in sequence.
\<close>

definition residual_tower_spec ::
  "'p tf_layers \<Rightarrow> int \<Rightarrow> int \<Rightarrow> int \<Rightarrow> bool \<Rightarrow> 'p \<Rightarrow> tensor \<Rightarrow> py_error + tensor" where
  "residual_tower_spec tfl num_filters num_residual_blocks se_ratio constrain_norms \<theta> x =
     (case Reshape [112, 8, 8] x of
        Inl e \<Rightarrow> Inl e
      | Inr spatial \<Rightarrow>
          Inr (blocks_in_sequence
                 (\<lambda>i. ResidualBlock tfl num_filters se_ratio constrain_norms
                         (''residual_block_'' @ str_nat i))
                 (nat num_residual_blocks) \<theta>
                 (ConvBlock tfl 3 num_filters constrain_norms True ''input_block'' \<theta> spatial)))"

section \<open>The layer classes of tf\_layers, from the specification\<close>

text \<open>
  The learned arithmetic of the layers, left open: for every layer, the value
  of output element \<open>k\<close> as a function of the layer's configuration, the
  variables and the input. \<open>compute_dtype\<close> is the element type the layers
  compute in (float16 under the mixed-precision policy), \<open>policy_size\<close> the
  size of the move-encoding space.
\<close>

record 'p layer_maths =
  compute_dtype :: DType
  policy_size :: nat
  conv_out :: "int \<Rightarrow> int \<Rightarrow> bool \<Rightarrow> bool \<Rightarrow> string \<Rightarrow> 'p \<Rightarrow> tensor \<Rightarrow> nat \<Rightarrow> real"
  residual_out :: "int \<Rightarrow> int \<Rightarrow> bool \<Rightarrow> string \<Rightarrow> 'p \<Rightarrow> tensor \<Rightarrow> nat \<Rightarrow> real"
  policy_logit :: "int \<Rightarrow> bool \<Rightarrow> 'p \<Rightarrow> tensor \<Rightarrow> nat \<Rightarrow> real"
  head_projection :: "int \<Rightarrow> int \<Rightarrow> int \<Rightarrow> bool \<Rightarrow> bool \<Rightarrow> 'p \<Rightarrow> tensor \<Rightarrow> nat \<Rightarrow> real"

text \<open>
  Modelled from the spec: \<^verbatim>\<open>ConvBlock\<close> of src/models/tf\_layers.py, which is not
  among the sources. The output keeps the batch and the spatial dimensions of
  the input and has the configured number of channels.
\<close>

definition spec_ConvBlock ::
  "'p layer_maths \<Rightarrow> int \<Rightarrow> int \<Rightarrow> bool \<Rightarrow> bool \<Rightarrow> string \<Rightarrow> 'p layer" where
  "spec_ConvBlock m filter_size output_channels constrain_norms bn_scale name \<theta> x =
     (let out_shape =
            (case shape x of
               batch # channels # spatial \<Rightarrow> batch # nat output_channels # spatial
             | s \<Rightarrow> s)
      in \<lparr> dtype = compute_dtype m,
           shape = out_shape,
           elems = map (conv_out m filter_size output_channels constrain_norms bn_scale name \<theta> x)
                     [0..<prod_list out_shape] \<rparr>)"

text \<open>
  Modelled from the spec: \<^verbatim>\<open>ResidualBlock\<close> of src/models/tf\_layers.py, which is
  not among the sources. Input and output shapes are identical.
\<close>

definition spec_ResidualBlock ::
  "'p layer_maths \<Rightarrow> int \<Rightarrow> int \<Rightarrow> bool \<Rightarrow> string \<Rightarrow> 'p layer" where
  "spec_ResidualBlock m channels se_ratio constrain_norms name \<theta> x =
     \<lparr> dtype = compute_dtype m,
       shape = shape x,
       elems = map (residual_out m channels se_ratio constrain_norms name \<theta> x)
                 [0..<prod_list (shape x)] \<rparr>"

text \<open>
  Modelled from the spec: \<^verbatim>\<open>ConvolutionalPolicyHead\<close> of src/models/tf\_layers.py,
  which is not among the sources. One vector of logits over the move-encoding
  space per sample.
\<close>

definition spec_ConvolutionalPolicyHead ::
  "'p layer_maths \<Rightarrow> int \<Rightarrow> bool \<Rightarrow> 'p layer" where
  "spec_ConvolutionalPolicyHead m num_filters constrain_norms \<theta> x =
     (let out_shape = take 1 (shape x) @ [policy_size m]
      in \<lparr> dtype = compute_dtype m,
           shape = out_shape,
           elems = map (policy_logit m num_filters constrain_norms \<theta> x)
                     [0..<prod_list out_shape] \<rparr>)"

text \<open>
  Modelled from the spec: \<^verbatim>\<open>ConvolutionalValueOrMovesLeftHead\<close> of
  src/models/tf\_layers.py, which is not among the sources. Convolution,
  flattening and hidden dense layer end in a dense projection to the requested
  output dimension (\<open>head_projection\<close> is that projection's output); the
  variant built with \<^verbatim>\<open>relu=True\<close> then clamps every output at zero, the
  other variant returns the projection as it is.
\<close>

definition spec_ConvolutionalValueOrMovesLeftHead ::
  "'p layer_maths \<Rightarrow> int \<Rightarrow> int \<Rightarrow> int \<Rightarrow> bool \<Rightarrow> bool \<Rightarrow> 'p layer" where
  "spec_ConvolutionalValueOrMovesLeftHead m output_dim num_filters hidden_dim constrain_norms
       relu \<theta> x =
     (let out_shape = take 1 (shape x) @ [nat output_dim];
          projection =
            head_projection m output_dim num_filters hidden_dim constrain_norms relu \<theta> x
      in \<lparr> dtype = compute_dtype m,
           shape = out_shape,
           elems = map (\<lambda>k. if relu then max 0 (projection k) else projection k)
                     [0..<prod_list out_shape] \<rparr>)"

text \<open>The four layer classes together, as the module the network imports.\<close>

definition spec_layers :: "'p layer_maths \<Rightarrow> 'p tf_layers" where
  "spec_layers m =
     \<lparr> ConvBlock = spec_ConvBlock m,
       ResidualBlock = spec_ResidualBlock m,
       ConvolutionalPolicyHead = spec_ConvolutionalPolicyHead m,
       ConvolutionalValueOrMovesLeftHead = spec_ConvolutionalValueOrMovesLeftHead m \<rparr>"

section \<open>The move count in the specification's words\<close>

text \<open>
  What one game record contributes to the count: half the length of its
  \<^verbatim>\<open>"tcn"\<close> field. \<open>has_len\<close> holds of the values \<^verbatim>\<open>len\<close> accepts.
\<close>

definition has_len :: "json \<Rightarrow> bool" where
  "has_len v = (case py_len v of Inr n \<Rightarrow> True | Inl e \<Rightarrow> False)"

definition tcn_moves :: "game \<Rightarrow> real" where
  "tcn_moves game =
     (case game ''tcn'' of
        None \<Rightarrow> 0
      | Some tcn \<Rightarrow> (case py_len tcn of Inr n \<Rightarrow> real n / 2 | Inl e \<Rightarrow> 0))"

section \<open>Concrete instances\<close>

text \<open>
  A small instance of every collaborator, on which the theorems below are
  evaluated: two files of game records; layers over a single variable \<open>\<theta>\<close>;
  a batch of one sample; absolute-error losses; an optimizer whose state is
  its loss scale and whose update is a gradient step of rate 1/10.
\<close>

definition example_files :: "game list list" where
  "example_files =
     [[[''tcn'' \<mapsto> JString ''mCZRbs'', ''white'' \<mapsto> JString ''a''],
       [''white'' \<mapsto> JString ''b'']],
      [[''tcn'' \<mapsto> JString ''gvYQf'']]]"

definition example_maths :: "real layer_maths" where
  "example_maths =
     \<lparr> compute_dtype = float16,
       policy_size = 4,
       conv_out = (\<lambda>filter_size output_channels constrain_norms bn_scale name \<theta> x k. \<theta>),
       residual_out =
         (\<lambda>channels se_ratio constrain_norms name \<theta> x k. max 0 (elems x ! k + \<theta>)),
       policy_logit = (\<lambda>num_filters constrain_norms \<theta> x k. \<theta> * real k),
       head_projection =
         (\<lambda>output_dim num_filters hidden_dim constrain_norms relu \<theta> x k.
            real k - \<theta> * real_of_int num_filters) \<rparr>"

definition example_input :: tensor where
  "example_input = \<lparr> dtype = float32, shape = [1, 7168], elems = replicate 7168 0 \<rparr>"

definition example_targets :: "tensor \<times> tensor \<times> tensor" where
  "example_targets =
     (\<lparr> dtype = float32, shape = [1, 4], elems = [0, 1, 0, 0] \<rparr>,
      \<lparr> dtype = float32, shape = [1, 3], elems = [1, 0, 0] \<rparr>,
      \<lparr> dtype = float32, shape = [1, 1], elems = [30] \<rparr>)"

definition example_losses :: "real tf_losses" where
  "example_losses =
     \<lparr> policy_loss =
         (\<lambda>target out. sum_list (map2 (\<lambda>a b. \<bar>a - b\<bar>) (elems target) (elems out))),
       value_loss =
         (\<lambda>target out. sum_list (map2 (\<lambda>a b. \<bar>a - b\<bar>) (elems target) (elems out))),
       moves_left_loss =
         (\<lambda>target out. sum_list (map2 (\<lambda>a b. \<bar>a - b\<bar>) (elems target) (elems out))) \<rparr>"

definition example_optimizer :: "(real, real, real, real) optimizer" where
  "example_optimizer =
     \<lparr> get_scaled_loss = (\<lambda>\<sigma> loss. \<sigma> * loss),
       get_unscaled_gradients = (\<lambda>\<sigma> g. g / \<sigma>),
       apply_gradients = (\<lambda>\<sigma> g \<theta>. (\<sigma>, \<theta> - g / 10)) \<rparr>"

section \<open>The learning-rate schedule: results\<close>

text \<open>
  The bounds of the double range are used without evaluating the powers.
\<close>

lemma dbl_overflow_factored: "dbl_overflow = 2 ^ 970 * (2 ^ 54 - 1)"
proof -
  have "(2::int) ^ (970 + 54) = 2 ^ 970 * 2 ^ 54"
    by (rule power_add)
  then have "(2::int) ^ 1024 = 2 ^ 970 * 2 ^ 54"
    by (simp only: numeral_plus_numeral arith_simps)
  then show ?thesis
    by (simp only: dbl_overflow_def right_diff_distrib mult_1_right)
qed

lemma dbl_overflow_lower: "2 ^ 970 \<le> dbl_overflow"
proof -
  have "(1::int) \<le> 2 ^ 54 - 1"
    by simp
  then have "(2::int) ^ 970 * 1 \<le> 2 ^ 970 * (2 ^ 54 - 1)"
    by (rule mult_left_mono) (rule zero_le_power, simp)
  then show ?thesis
    by (simp only: dbl_overflow_factored mult_1_right)
qed

lemma dbl_overflow_upper: "dbl_overflow < 2 ^ 1024"
proof -
  have "(0::int) < 2 ^ 970"
    by (rule zero_less_power) simp
  then have "(2::int) ^ 1024 - 2 ^ 970 < 2 ^ 1024"
    by (rule diff_strict_left_mono [of 0 "2 ^ 970" "2 ^ 1024", simplified diff_zero])
  then show ?thesis
    by (simp only: dbl_overflow_def)
qed

lemma small_below_dbl_overflow: "i < 2 ^ 64 \<Longrightarrow> i < dbl_overflow"
proof -
  assume a: "i < 2 ^ 64"
  have "(2::int) ^ 64 \<le> 2 ^ 970"
    by (rule power_increasing) simp_all
  then have "(2::int) ^ 64 \<le> dbl_overflow"
    using dbl_overflow_lower by (rule order_trans)
  with a show ?thesis
    by (rule less_le_trans)
qed

lemma small_below_dbl_overflow_real:
  fixes x :: real
  assumes "x < 2 ^ 64"
  shows "x < of_int dbl_overflow"
proof -
  have "(2::int) ^ 64 \<le> 2 ^ 970"
    by (rule power_increasing) simp_all
  then have "(2::int) ^ 64 \<le> dbl_overflow"
    using dbl_overflow_lower by (rule order_trans)
  then have "(of_int (2 ^ 64) :: real) \<le> of_int dbl_overflow"
    by (simp only: of_int_le_iff)
  then have "(2::real) ^ 64 \<le> of_int dbl_overflow"
    by (simp only: of_int_power of_int_numeral)
  with assms show ?thesis
    by (rule less_le_trans)
qed

lemma dbl_overflow_pos: "1 < dbl_overflow"
  by (rule small_below_dbl_overflow) simp

lemma one_over_less: "0 < a \<Longrightarrow> a < b \<Longrightarrow> 1 / b < 1 / (a::real)"
  by (simp add: field_simps)

lemma one_over_le: "0 < a \<Longrightarrow> a \<le> b \<Longrightarrow> 1 / b \<le> 1 / (a::real)"
  by (simp add: field_simps)

lemma above_dbl_underflow:
  assumes "1 / 2 ^ 64 \<le> y"
  shows "\<not> y \<le> dbl_underflow"
proof -
  have "(2::real) ^ 64 < 2 ^ 1075"
    by (rule power_strict_increasing) simp_all
  moreover have "(0::real) < 2 ^ 64"
    by (rule zero_less_power) simp
  ultimately have "1 / (2::real) ^ 1075 < 1 / 2 ^ 64"
    by (rule one_over_less [rotated])
  then have "dbl_underflow < y"
    using assms unfolding dbl_underflow_def by (rule less_le_trans)
  then show ?thesis
    by simp
qed

lemma float_div_by_int:
  assumes "i \<noteq> 0" and "\<bar>x\<bar> < of_int dbl_overflow"
  shows "float_div x (of_int i) = Inr (Finite (x / of_int i))"
proof -
  have "1 \<le> \<bar>i\<bar>"
    using assms(1) by arith
  then have "1 \<le> \<bar>real_of_int i\<bar>"
    by (metis of_int_abs of_int_1_le_iff)
  then have "\<bar>x\<bar> / \<bar>real_of_int i\<bar> \<le> \<bar>x\<bar> / 1"
    by (intro frac_le) simp_all
  then have "\<bar>x / of_int i\<bar> \<le> \<bar>x\<bar>"
    by (simp only: abs_divide div_by_1)
  then show ?thesis
    using assms by (simp add: float_div_def)
qed

lemma powi_nonneg_of_int:
  "0 \<le> k \<Longrightarrow> of_int f powi k = (of_int (f ^ nat k) :: real)"
  by (simp add: power_int_def)

lemma powi_neg: "0 < k \<Longrightarrow> (x::real) powi (- k) = 1 / x ^ nat k"
  by (simp add: power_int_def inverse_eq_divide power_one_over)

lemma scheduler_value:
  assumes "n \<noteq> 0" and "0 \<le> e div n" and "f ^ nat (e div n) \<noteq> 0"
    and "\<bar>f ^ nat (e div n)\<bar> < dbl_overflow" and "\<bar>s\<bar> < of_int dbl_overflow"
  shows "scheduler s n f m e = Inr (Finite (max m (s / of_int f powi (e div n))))"
proof -
  have 1: "py_int_pow f (e div n) = Inr (PyInt (f ^ nat (e div n)))"
    using assms(2) by (simp add: py_int_pow_def)
  have 2: "float_truediv s (PyInt (f ^ nat (e div n)))
             = Inr (Finite (s / of_int (f ^ nat (e div n))))"
    using assms(4) float_div_by_int [OF assms(3,5)]
    by (simp only: float_truediv_def float_of_int_def py_num.case if_True sum.case)
  show ?thesis
    by (simp only: scheduler_def Let_def 1 2 assms(1) if_False sum.case py_max_def
        py_float.case powi_nonneg_of_int [OF assms(2)])
qed

lemma scheduler_overflow:
  assumes "n \<noteq> 0" and "0 \<le> e div n" and "dbl_overflow \<le> \<bar>f ^ nat (e div n)\<bar>"
  shows "scheduler s n f m e = Inl OverflowError"
  using assms
  by (simp add: scheduler_def py_int_pow_def float_truediv_def float_of_int_def Let_def)

lemma scheduler_zero_power:
  assumes "n \<noteq> 0" and "0 \<le> e div n" and "f ^ nat (e div n) = 0"
  shows "scheduler s n f m e = Inl ZeroDivisionError"
proof -
  have 1: "py_int_pow f (e div n) = Inr (PyInt 0)"
    using assms(2,3) by (simp only: py_int_pow_def if_True)
  have 2: "float_truediv s (PyInt 0) = Inl ZeroDivisionError"
    using dbl_overflow_pos by (simp add: float_truediv_def float_of_int_def float_div_def)
  show ?thesis
    by (simp only: scheduler_def Let_def 1 2 assms(1) if_False sum.case)
qed

lemma rate_antimono:
  fixes s :: real
  assumes "1 \<le> n" and "1 \<le> f" and "0 \<le> s" and "e \<le> e'"
  shows "max m (s / of_int f powi (e' div n)) \<le> max m (s / of_int f powi (e div n))"
proof -
  have k: "e div n \<le> e' div n"
    using assms(1,4) by (simp add: zdiv_mono1)
  have f1: "(1::real) \<le> of_int f"
    using assms(2) by simp
  have "of_int f powi (e div n) \<le> (of_int f :: real) powi (e' div n)"
    using f1 k by (rule power_int_increasing [rotated])
  moreover have "0 < (of_int f :: real) powi (e div n)"
    using f1 by (simp add: zero_less_power_int)
  ultimately have "s / of_int f powi (e' div n) \<le> s / of_int f powi (e div n)"
    using assms(3) by (simp add: frac_le)
  then show ?thesis
    by (simp add: max.coboundedI2)
qed

lemma big_power_overflows: "dbl_overflow \<le> (2000::int) ^ 98"
proof -
  have "(2::int) ^ 21 \<le> 2000 ^ 2"
    by simp
  then have "((2::int) ^ 21) ^ 49 \<le> (2000 ^ 2) ^ 49"
    by (rule power_mono) (rule zero_le_power, simp)
  then have "(2::int) ^ (21 * 49) \<le> 2000 ^ (2 * 49)"
    by (simp only: power_mult)
  then have a: "(2::int) ^ 1029 \<le> 2000 ^ 98"
    by (simp only: arith_simps numeral_times_numeral)
  have "(2::int) ^ 1024 \<le> 2 ^ 1029"
    by (rule power_increasing) simp_all
  then have "dbl_overflow \<le> 2 ^ 1029"
    using dbl_overflow_upper by (rule less_le_trans [THEN less_imp_le, rotated])
  then show ?thesis
    using a by (rule order_trans)
qed

lemma overflow_example:
  "(1::int) \<noteq> 0" "(0::int) \<le> 98 div 1" "dbl_overflow \<le> \<bar>(2000::int) ^ nat (98 div 1)\<bar>"
proof -
  have "(0::int) \<le> 2000 ^ 98"
    by (rule zero_le_power) simp
  then have "\<bar>(2000::int) ^ 98\<bar> = 2000 ^ 98"
    by (rule abs_of_nonneg)
  then show "dbl_overflow \<le> \<bar>(2000::int) ^ nat (98 div 1)\<bar>"
    using big_power_overflows by (simp only: div_by_1 nat_numeral)
qed simp_all

lemma tiny_power_underflows: "1 / (3::real) ^ 700 \<le> dbl_underflow"
proof -
  have "(2::real) ^ 43 \<le> 3 ^ 28"
    by simp
  then have "((2::real) ^ 43) ^ 25 \<le> (3 ^ 28) ^ 25"
    by (rule power_mono) (rule zero_le_power, simp)
  then have "(2::real) ^ (43 * 25) \<le> 3 ^ (28 * 25)"
    by (simp only: power_mult)
  then have a: "(2::real) ^ 1075 \<le> 3 ^ 700"
    by (simp only: arith_simps numeral_times_numeral)
  have "(0::real) < 2 ^ 1075"
    by (rule zero_less_power) simp
  then have "1 / (3::real) ^ 700 \<le> 1 / 2 ^ 1075"
    using a by (rule one_over_le)
  then show ?thesis
    by (simp only: dbl_underflow_def)
qed

lemma float_pow_underflow_example: "float_pow 3 (- 700) = Inr 0"
proof -
  have c: "float_of_int 3 = Inr 3" "float_of_int (- 700) = Inr (- 700)"
    by (simp_all add: float_of_int_def small_below_dbl_overflow)
  have "(0::real) \<le> 1 / 3 ^ 700"
    by (rule divide_nonneg_nonneg) (simp, rule zero_le_power, simp)
  then have "\<bar>1 / (3::real) ^ 700\<bar> = 1 / 3 ^ 700"
    by (rule abs_of_nonneg)
  moreover have "(3::real) powi (- 700) = 1 / 3 ^ nat 700"
    by (rule powi_neg) simp
  ultimately have u: "\<bar>(3::real) powi (- 700)\<bar> \<le> dbl_underflow"
    using tiny_power_underflows by (simp only: nat_numeral)
  have z: "(3::real) \<noteq> 0"
    by simp
  show ?thesis
    by (simp only: float_pow_def c sum.case z u if_False if_True)
qed

lemma float_pow_example: "float_pow 2 (- 1) = Inr (1 / 2)"
proof -
  have c: "float_of_int 2 = Inr 2" "float_of_int (- 1) = Inr (- 1)"
    by (simp_all add: float_of_int_def small_below_dbl_overflow)
  have p: "(2::real) powi (- 1) = 1 / 2"
    by simp
  have u: "\<not> \<bar>1 / 2 :: real\<bar> \<le> dbl_underflow"
    by (rule above_dbl_underflow) simp
  have z: "(2::real) \<noteq> 0"
    by simp
  show ?thesis
    by (simp only: float_pow_def c sum.case z p u if_False)
qed

lemma example_rates_finite:
  "\<bar>3 / 10000 :: real\<bar> < of_int dbl_overflow" "\<bar>- 1 :: real\<bar> < of_int dbl_overflow"
  "\<bar>1 :: real\<bar> < of_int dbl_overflow"
  by (rule small_below_dbl_overflow_real, simp)+

lemma scheduler_examples:
  "scheduler (3/10000) 2 3 (1/200000) 1 = Inr (Finite (3/10000))"
  "scheduler (3/10000) 2 3 (1/200000) 5 = Inr (Finite (1/30000))"
  "scheduler (-1) 1 2 (-10) 0 = Inr (Finite (-1))"
  "scheduler (-1) 1 2 (-10) 1 = Inr (Finite (-1/2))"
  "scheduler 1 (-1) 2 0 0 = Inr (Finite 1)"
  using scheduler_value [OF _ _ _ _ example_rates_finite(1), of 2 1 3 "1/200000"]
    scheduler_value [OF _ _ _ _ example_rates_finite(1), of 2 5 3 "1/200000"]
    scheduler_value [OF _ _ _ _ example_rates_finite(2), of 1 0 2 "-10"]
    scheduler_value [OF _ _ _ _ example_rates_finite(2), of 1 1 2 "-10"]
    scheduler_value [OF _ _ _ _ example_rates_finite(3), of "-1" 0 2 0]
  by (simp_all add: small_below_dbl_overflow)

lemma scheduler_negative_power_example: "scheduler 1 (-1) 2 0 1 = Inr (Finite 2)"
  by (simp add: scheduler_def py_int_pow_def float_pow_example float_truediv_def
      float_div_def py_max_def small_below_dbl_overflow Let_def)

lemma scheduler_underflow_example:
  "scheduler (3/10000) (-1) 3 (5/1000000) 700 = Inl ZeroDivisionError"
  by (simp add: scheduler_def py_int_pow_def float_pow_underflow_example float_truediv_def
      float_div_def Let_def)

text \<open>
  Claim C10, as stated, fails. The claim: for every epoch \<open>e \<ge> 0\<close> the schedule
  returns \<open>max(min_learning_rate, starting_lr / reduce_lr_factor^(e // n))\<close>,
  which is at least \<open>min_learning_rate\<close>, and whenever \<open>reduce_lr_factor \<ge> 1\<close>
  the returned rate is non-increasing in the epoch. With factor 2:
  for the interval \<open>n = -1\<close> the rate goes from 1 at epoch 0 up to 2 at epoch 1;
  for the starting rate \<open>-1\<close> (and minimum \<open>-10\<close>) it goes from \<open>-1\<close> up to
  \<open>-1/2\<close>. And the schedule does not return a rate at every epoch: for the
  interval 0, or the factor 0 once a reduction is due, it raises
  ZeroDivisionError; for the factor 2000 and a reduction every epoch it raises
  OverflowError at epoch 98, where \<open>2000^98\<close> is beyond the range of a double;
  for the factor 3 and the interval \<open>-1\<close> it raises ZeroDivisionError at epoch
  700, where \<open>3^(-700)\<close> is zero as a double.
\<close>

theorem scheduler_counterexample:
  "scheduler 1 (-1) 2 0 0 = Inr (Finite 1) \<and> scheduler 1 (-1) 2 0 1 = Inr (Finite 2)
   \<and> scheduler (-1) 1 2 (-10) 0 = Inr (Finite (-1))
   \<and> scheduler (-1) 1 2 (-10) 1 = Inr (Finite (-1/2))
   \<and> scheduler (3/10000) 0 3 (5/1000000) 0 = Inl ZeroDivisionError
   \<and> scheduler (3/10000) 1 0 (5/1000000) 1 = Inl ZeroDivisionError
   \<and> scheduler (3/10000) 1 2000 (5/1000000) 98 = Inl OverflowError
   \<and> scheduler (3/10000) (-1) 3 (5/1000000) 700 = Inl ZeroDivisionError"
proof (intro conjI)
  show "scheduler (3/10000) 0 3 (5/1000000) 0 = Inl ZeroDivisionError"
    by (simp add: scheduler_def)
  show "scheduler (3/10000) 1 0 (5/1000000) 1 = Inl ZeroDivisionError"
    by (rule scheduler_zero_power) simp_all
  show "scheduler (3/10000) 1 2000 (5/1000000) 98 = Inl OverflowError"
    by (rule scheduler_overflow [OF overflow_example])
  show "scheduler (3/10000) (-1) 3 (5/1000000) 700 = Inl ZeroDivisionError"
    by (rule scheduler_underflow_example)
qed (simp_all only: scheduler_examples scheduler_negative_power_example)

text \<open>
  Claim C10, amended. Take a non-zero interval \<open>n\<close> and an epoch \<open>e\<close> whose
  number of reductions \<open>e // n\<close> is not negative (every epoch \<open>e \<ge> 0\<close> when
  \<open>n \<ge> 1\<close>), and a finite starting rate. If the power \<open>f^(e // n)\<close> is not zero
  and within the range of a double (magnitude below \<open>2^1024 - 2^970\<close>), the
  schedule returns the rate \<open>max(min_learning_rate, starting_lr / f^(e // n))\<close>,
  which is at least \<open>min_learning_rate\<close>; if the power is zero it raises
  ZeroDivisionError, and if it is beyond the range of a double it raises
  OverflowError. For the interval 0 it raises ZeroDivisionError at every
  epoch. When the interval is at least 1, the factor is at least 1 and the
  starting rate is not negative, then for epochs \<open>0 \<le> e \<le> e'\<close> with
  \<open>f^(e' // n)\<close> within the range of a double, the rate returned at \<open>e'\<close> is at
  most the rate returned at \<open>e\<close>.
\<close>

theorem scheduler_amended:
  "(n \<noteq> 0 \<and> 0 \<le> e div n \<and> f ^ nat (e div n) \<noteq> 0 \<and> \<bar>f ^ nat (e div n)\<bar> < dbl_overflow
      \<and> \<bar>s\<bar> < of_int dbl_overflow \<longrightarrow>
      (\<exists>r. scheduler s n f m e = Inr (Finite r)
           \<and> r = max m (s / of_int f powi (e div n)) \<and> m \<le> r))
   \<and> scheduler s 0 f m e = Inl ZeroDivisionError
   \<and> (n \<noteq> 0 \<and> 0 \<le> e div n \<and> f ^ nat (e div n) = 0 \<longrightarrow>
        scheduler s n f m e = Inl ZeroDivisionError)
   \<and> (n \<noteq> 0 \<and> 0 \<le> e div n \<and> dbl_overflow \<le> \<bar>f ^ nat (e div n)\<bar> \<longrightarrow>
        scheduler s n f m e = Inl OverflowError)
   \<and> (1 \<le> n \<and> 1 \<le> f \<and> 0 \<le> s \<and> s < of_int dbl_overflow \<and> 0 \<le> e \<and> e \<le> e'
        \<and> f ^ nat (e' div n) < dbl_overflow \<longrightarrow>
      (\<exists>r r'. scheduler s n f m e = Inr (Finite r) \<and> scheduler s n f m e' = Inr (Finite r')
             \<and> r' \<le> r))"
proof (intro conjI impI)
  assume "n \<noteq> 0 \<and> 0 \<le> e div n \<and> f ^ nat (e div n) \<noteq> 0 \<and> \<bar>f ^ nat (e div n)\<bar> < dbl_overflow
      \<and> \<bar>s\<bar> < of_int dbl_overflow"
  then show "\<exists>r. scheduler s n f m e = Inr (Finite r)
           \<and> r = max m (s / of_int f powi (e div n)) \<and> m \<le> r"
    by (simp add: scheduler_value)
next
  show "scheduler s 0 f m e = Inl ZeroDivisionError"
    by (simp add: scheduler_def)
next
  assume "n \<noteq> 0 \<and> 0 \<le> e div n \<and> f ^ nat (e div n) = 0"
  then show "scheduler s n f m e = Inl ZeroDivisionError"
    by (intro scheduler_zero_power) simp_all
next
  assume "n \<noteq> 0 \<and> 0 \<le> e div n \<and> dbl_overflow \<le> \<bar>f ^ nat (e div n)\<bar>"
  then show "scheduler s n f m e = Inl OverflowError"
    by (intro scheduler_overflow) simp_all
next
  assume a: "1 \<le> n \<and> 1 \<le> f \<and> 0 \<le> s \<and> s < of_int dbl_overflow \<and> 0 \<le> e \<and> e \<le> e'
        \<and> f ^ nat (e' div n) < dbl_overflow"
  then have n: "n \<noteq> 0" and s: "\<bar>s\<bar> < of_int dbl_overflow"
    by auto
  have k: "0 \<le> e div n" "e div n \<le> e' div n"
    using a by (simp_all add: pos_imp_zdiv_nonneg_iff zdiv_mono1)
  then have k': "0 \<le> e' div n"
    by simp
  have pos: "0 < f ^ nat (e div n)" "0 < f ^ nat (e' div n)"
    using a by simp_all
  have "f ^ nat (e div n) \<le> f ^ nat (e' div n)"
    using a k by (intro power_increasing) simp_all
  then have lt: "\<bar>f ^ nat (e div n)\<bar> < dbl_overflow" "\<bar>f ^ nat (e' div n)\<bar> < dbl_overflow"
    using a pos by simp_all
  have nz: "f ^ nat (e div n) \<noteq> 0" "f ^ nat (e' div n) \<noteq> 0"
    using pos by linarith+
  have le: "max m (s / of_int f powi (e' div n)) \<le> max m (s / of_int f powi (e div n))"
    using a by (intro rate_antimono) simp_all
  show "\<exists>r r'. scheduler s n f m e = Inr (Finite r) \<and> scheduler s n f m e' = Inr (Finite r')
             \<and> r' \<le> r"
    using scheduler_value [OF n k(1) nz(1) lt(1) s, of m]
      scheduler_value [OF n k' nz(2) lt(2) s, of m] le
    by blast
qed

text \<open>
  The amended claim at the defaults of train.py (rate 3/10000, factor 3,
  minimum 5/1000000) with a reduction every 2 epochs: epoch 5 has had two
  reductions, and its rate is below that of epoch 1. With the factor 0
  instead, epoch 5 raises ZeroDivisionError; with the factor 2000 and a
  reduction every epoch, epoch 98 raises OverflowError.
\<close>

theorem scheduler_amended_witness:
  "(2::int) \<noteq> 0 \<and> (0::int) \<le> 5 div 2 \<and> (3::int) ^ nat (5 div 2) \<noteq> 0
   \<and> \<bar>(3::int) ^ nat (5 div 2)\<bar> < dbl_overflow \<and> \<bar>3/10000 :: real\<bar> < of_int dbl_overflow
   \<and> scheduler (3/10000) 2 3 (5/1000000) 5 = Inr (Finite (1/30000))
   \<and> (0::int) ^ nat (5 div 2) = 0
   \<and> scheduler (3/10000) 2 0 (5/1000000) 5 = Inl ZeroDivisionError
   \<and> (1::int) \<noteq> 0 \<and> (0::int) \<le> 98 div 1 \<and> dbl_overflow \<le> \<bar>(2000::int) ^ nat (98 div 1)\<bar>
   \<and> scheduler (3/10000) 1 2000 (5/1000000) 98 = Inl OverflowError
   \<and> (1::int) \<le> 2 \<and> (1::int) \<le> 3 \<and> (0::real) \<le> 3/10000 \<and> (0::int) \<le> 1 \<and> (1::int) \<le> 5
   \<and> (3::int) ^ nat (5 div 2) < dbl_overflow
   \<and> (\<exists>r r'. scheduler (3/10000) 2 3 (5/1000000) 1 = Inr (Finite r)
        \<and> scheduler (3/10000) 2 3 (5/1000000) 5 = Inr (Finite r') \<and> r' \<le> r)"
proof -
  have over: "scheduler (3/10000) 1 2000 (5/1000000) 98 = Inl OverflowError"
    using scheduler_amended [of 1 98 2000 "3/10000" "5/1000000" 98] overflow_example by blast
  show ?thesis
    using scheduler_amended [of 2 5 3 "3/10000" "5/1000000" 5]
      scheduler_amended [of 2 5 0 "3/10000" "5/1000000" 5]
      scheduler_amended [of 2 1 3 "3/10000" "5/1000000" 5]
      over overflow_example(3) example_rates_finite(1)
    by (simp add: scheduler_examples small_below_dbl_overflow)
qed

section \<open>The steps-per-epoch estimate: results\<close>

lemma count_games_sum:
  assumes "\<forall>game\<in>set games. \<forall>tcn. game ''tcn'' = Some tcn \<longrightarrow> has_len tcn"
  shows "count_games games moves =
           Inr (moves + sum_list (map tcn_moves (filter (\<lambda>game. game ''tcn'' \<noteq> None) games)))"
  using assms
proof (induction games arbitrary: moves)
  case Nil
  then show ?case by simp
next
  case (Cons game rest)
  then show ?case
    by (auto simp: tcn_moves_def has_len_def split: option.splits sum.splits)
qed

lemma count_files_sum:
  assumes "\<forall>games\<in>set files. \<forall>game\<in>set games. \<forall>tcn. game ''tcn'' = Some tcn \<longrightarrow> has_len tcn"
  shows "count_files files moves =
           Inr (moves
                + sum_list (map tcn_moves (filter (\<lambda>game. game ''tcn'' \<noteq> None) (concat files))))"
  using assms
proof (induction files arbitrary: moves)
  case Nil
  then show ?case by simp
next
  case (Cons games rest)
  then show ?case by (simp add: count_games_sum add.assoc)
qed

lemma tcn_moves_nonneg: "0 \<le> tcn_moves game"
  by (simp add: tcn_moves_def split: option.splits sum.splits)

lemma sum_tcn_moves_nonneg: "0 \<le> sum_list (map tcn_moves games)"
  by (induction games) (simp_all add: tcn_moves_nonneg)

lemma steps_per_epoch_batch_zero:
  assumes "\<forall>games\<in>set files. \<forall>game\<in>set games. \<forall>tcn. game ''tcn'' = Some tcn \<longrightarrow> has_len tcn"
  shows "steps_per_epoch files 0 = Inl ZeroDivisionError"
  using count_files_sum [OF assms, of 0]
  by (simp add: steps_per_epoch_def py_truediv_def)

text \<open>
  Claim C9. The steps-per-epoch value is the floor of the move count divided
  by the batch size, where the move count is the sum, over the loaded game
  records that have a \<^verbatim>\<open>"tcn"\<close> field, of half the length of that field;
  records without the field are ignored. The batch size is a positive count
  (for zero the division raises and no value is passed on), and the
  \<^verbatim>\<open>"tcn"\<close> fields are values that have a length.
\<close>

theorem steps_per_epoch_estimate:
  assumes "0 < batch_size"
    and "\<forall>games\<in>set files. \<forall>game\<in>set games. \<forall>tcn. game ''tcn'' = Some tcn \<longrightarrow> has_len tcn"
  shows "steps_per_epoch files batch_size =
           Inr \<lfloor>sum_list (map tcn_moves (filter (\<lambda>game. game ''tcn'' \<noteq> None) (concat files)))
                 / real_of_int batch_size\<rfloor>"
proof -
  let ?total = "sum_list (map tcn_moves (filter (\<lambda>game. game ''tcn'' \<noteq> None) (concat files)))"
  have "count_files files 0 = Inr ?total"
    using count_files_sum [OF assms(2), of 0] by simp
  moreover have "0 \<le> ?total / real_of_int batch_size"
    using assms(1) sum_tcn_moves_nonneg by simp
  ultimately show ?thesis
    using assms(1) by (simp add: steps_per_epoch_def py_truediv_def py_int_def)
qed

text \<open>
  Three records in two files, one of them without the field: lengths 6 and 5
  give 5.5 moves, and a batch size of 2 gives 2 steps.
\<close>

theorem steps_per_epoch_estimate_witness:
  "(0::int) < 2 \<and> steps_per_epoch example_files 2 = Inr 2"
  using steps_per_epoch_estimate [of 2 example_files]
  by (simp add: example_files_def has_len_def tcn_moves_def)

section \<open>The forward pass: results\<close>

lemma apply_residual_blocks_snoc:
  "apply_residual_blocks (bs @ [b]) \<theta> x = b \<theta> (apply_residual_blocks bs \<theta> x)"
  by (induction bs arbitrary: x) simp_all

lemma apply_residual_blocks_upt:
  "apply_residual_blocks (map block [0..<k]) \<theta> x = blocks_in_sequence block k \<theta> x"
  by (induction k) (simp_all add: apply_residual_blocks_snoc)

lemma call_init_tower:
  "call (LeelaZeroNet_init tfl nf n se cn wp wv wm) \<theta> x =
     (case residual_tower_spec tfl nf n se cn \<theta> x of
        Inl e \<Rightarrow> Inl e
      | Inr trunk \<Rightarrow>
          Inr (tf_cast (ConvolutionalPolicyHead tfl nf cn \<theta> trunk) float32,
               tf_cast (ConvolutionalValueOrMovesLeftHead tfl 3 32 128 cn False \<theta> trunk) float32,
               tf_cast (ConvolutionalValueOrMovesLeftHead tfl 1 8 128 cn True \<theta> trunk) float32))"
  by (simp add: call_def LeelaZeroNet_init_def residual_tower_spec_def apply_residual_blocks_upt
      split: sum.splits)

lemma Reshape_valid:
  "shape x = b # rest \<Longrightarrow> prod_list rest = 7168 \<Longrightarrow>
   Reshape [112, 8, 8] x = Inr (x\<lparr>shape := [b, 112, 8, 8]\<rparr>)"
  by (simp add: Reshape_def)

lemma residual_tower_spec_valid:
  assumes "shape x = b # rest" and "prod_list rest = 7168"
  shows "residual_tower_spec tfl nf n se cn \<theta> x =
           Inr (blocks_in_sequence
                  (\<lambda>i. ResidualBlock tfl nf se cn (''residual_block_'' @ str_nat i)) (nat n) \<theta>
                  (ConvBlock tfl 3 nf cn True ''input_block'' \<theta> (x\<lparr>shape := [b, 112, 8, 8]\<rparr>)))"
  by (simp add: residual_tower_spec_def Reshape_valid [OF assms])

lemma call_init_valid:
  assumes "shape x = b # rest" and "prod_list rest = 7168"
  shows "\<exists>trunk. residual_tower_spec tfl nf n se cn \<theta> x = Inr trunk \<and>
     call (LeelaZeroNet_init tfl nf n se cn wp wv wm) \<theta> x =
          Inr (tf_cast (ConvolutionalPolicyHead tfl nf cn \<theta> trunk) float32,
               tf_cast (ConvolutionalValueOrMovesLeftHead tfl 3 32 128 cn False \<theta> trunk) float32,
               tf_cast (ConvolutionalValueOrMovesLeftHead tfl 1 8 128 cn True \<theta> trunk) float32)"
  by (simp add: call_init_tower residual_tower_spec_valid [OF assms])

lemma init_weights [simp]:
  "policy_loss_weight (LeelaZeroNet_init tfl nf n se cn wp wv wm) = wp"
  "value_loss_weight (LeelaZeroNet_init tfl nf n se cn wp wv wm) = wv"
  "moves_left_loss_weight (LeelaZeroNet_init tfl nf n se cn wp wv wm) = wm"
  by (simp_all add: LeelaZeroNet_init_def)

lemma shape_spec_residual_blocks:
  "shape (blocks_in_sequence (\<lambda>i. ResidualBlock (spec_layers m) nf se cn (name i)) k \<theta> x)
     = shape x"
  by (induction k) (simp_all add: spec_layers_def spec_ResidualBlock_def)

lemma shape_spec_tower:
  assumes "shape x = b # rest" and "prod_list rest = 7168"
  shows "\<exists>trunk. residual_tower_spec (spec_layers m) nf n se cn \<theta> x = Inr trunk
           \<and> shape trunk = [b, nat nf, 8, 8]"
proof -
  have "shape (ConvBlock (spec_layers m) 3 nf cn True ''input_block'' \<theta>
                 (x\<lparr>shape := [b, 112, 8, 8]\<rparr>))
          = [b, nat nf, 8, 8]"
    by (simp add: spec_layers_def spec_ConvBlock_def)
  then show ?thesis
    by (simp add: residual_tower_spec_valid [OF assms] shape_spec_residual_blocks)
qed

lemma spec_heads_of_trunk:
  assumes "shape trunk = b # rest"
  shows "shape (ConvolutionalPolicyHead (spec_layers m) nf cn \<theta> trunk) = [b, policy_size m]"
    and "shape (ConvolutionalValueOrMovesLeftHead (spec_layers m) od f h cn r \<theta> trunk)
           = [b, nat od]"
    and "elems (ConvolutionalValueOrMovesLeftHead (spec_layers m) od f h cn False \<theta> trunk)
           = map (head_projection m od f h cn False \<theta> trunk) [0..<b * nat od]"
    and "elems (ConvolutionalValueOrMovesLeftHead (spec_layers m) od f h cn True \<theta> trunk)
           = map (\<lambda>k. max 0 (head_projection m od f h cn True \<theta> trunk k)) [0..<b * nat od]"
  using assms
  by (simp_all add: spec_layers_def spec_ConvolutionalPolicyHead_def
      spec_ConvolutionalValueOrMovesLeftHead_def Let_def)

lemma example_input_shape: "shape example_input = [1, 7168]"
  by (simp add: example_input_def)

lemma example_maths_values:
  "compute_dtype example_maths = float16"
  "policy_size example_maths = 4"
  "head_projection example_maths 1 8 128 True True 1 example_input 0 = - 8"
  by (simp_all add: example_maths_def)

lemma example_call:
  "call (LeelaZeroNet_init (spec_layers example_maths) 1 1 8 True wp wv wm) 1 example_input =
     Inr (\<lparr> dtype = float32, shape = [1, 4], elems = [0, 1, 2, 3] \<rparr>,
          \<lparr> dtype = float32, shape = [1, 3], elems = [-32, -31, -30] \<rparr>,
          \<lparr> dtype = float32, shape = [1, 1], elems = [0] \<rparr>)"
  by (simp add: call_def LeelaZeroNet_init_def Reshape_def example_input_shape spec_layers_def
      spec_ConvBlock_def spec_ResidualBlock_def spec_ConvolutionalPolicyHead_def
      spec_ConvolutionalValueOrMovesLeftHead_def example_maths_def tf_cast_def Let_def
      upt_conv_Cons)

lemma example_call_no_blocks:
  "call (LeelaZeroNet_init (spec_layers example_maths) 1 0 8 True wp wv wm) 1 example_input =
     Inr (\<lparr> dtype = float32, shape = [1, 4], elems = [0, 1, 2, 3] \<rparr>,
          \<lparr> dtype = float32, shape = [1, 3], elems = [-32, -31, -30] \<rparr>,
          \<lparr> dtype = float32, shape = [1, 1], elems = [0] \<rparr>)"
  by (simp add: call_def LeelaZeroNet_init_def Reshape_def example_input_shape spec_layers_def
      spec_ConvBlock_def spec_ConvolutionalPolicyHead_def
      spec_ConvolutionalValueOrMovesLeftHead_def example_maths_def tf_cast_def Let_def
      upt_conv_Cons)

text \<open>
  Claim C4. For every input, the forward pass of a constructed network is the
  residual tower followed by the heads: the input is reshaped to 112 x 8 x 8
  (an input the reshape refuses ends the call with its error), one input
  convolution block is applied, then the N residual blocks one after the
  other, and the one resulting trunk tensor is given to the policy head, the
  value head and the moves-left head. For an input of 7168 elements per sample
  the reshape succeeds, and the tower is block N - 1 applied to ... block 0
  applied to the input block's output.
\<close>

theorem call_tower_then_heads:
  "call (LeelaZeroNet_init tfl nf n se cn wp wv wm) \<theta> x =
     (case residual_tower_spec tfl nf n se cn \<theta> x of
        Inl e \<Rightarrow> Inl e
      | Inr trunk \<Rightarrow>
          Inr (tf_cast (ConvolutionalPolicyHead tfl nf cn \<theta> trunk) float32,
               tf_cast (ConvolutionalValueOrMovesLeftHead tfl 3 32 128 cn False \<theta> trunk) float32,
               tf_cast (ConvolutionalValueOrMovesLeftHead tfl 1 8 128 cn True \<theta> trunk) float32))
   \<and> (\<forall>b rest. shape x = b # rest \<and> prod_list rest = 112 * 8 * 8 \<longrightarrow>
         residual_tower_spec tfl nf n se cn \<theta> x =
           Inr (blocks_in_sequence
                  (\<lambda>i. ResidualBlock tfl nf se cn (''residual_block_'' @ str_nat i)) (nat n) \<theta>
                  (ConvBlock tfl 3 nf cn True ''input_block'' \<theta> (x\<lparr>shape := [b, 112, 8, 8]\<rparr>))))"
  by (simp add: call_init_tower residual_tower_spec_valid)

text \<open>
  The example network with one residual block on the example batch: the tower
  is the block named \<^verbatim>\<open>residual_block_0\<close> applied to the input block's output.
\<close>

theorem call_tower_then_heads_witness:
  "shape example_input = 1 # [7168] \<and> prod_list [7168::nat] = 112 * 8 * 8
   \<and> residual_tower_spec (spec_layers example_maths) 1 1 8 True 1 example_input =
       Inr (ResidualBlock (spec_layers example_maths) 1 8 True ''residual_block_0'' 1
              (ConvBlock (spec_layers example_maths) 3 1 True True ''input_block'' 1
                 (example_input\<lparr>shape := [1, 112, 8, 8]\<rparr>)))
   \<and> call (LeelaZeroNet_init (spec_layers example_maths) 1 1 8 True (1::real) 1 (1/100)) 1
        example_input =
       (case residual_tower_spec (spec_layers example_maths) 1 1 8 True 1 example_input of
          Inl e \<Rightarrow> Inl e
        | Inr trunk \<Rightarrow>
            Inr (tf_cast (ConvolutionalPolicyHead (spec_layers example_maths) 1 True 1 trunk)
                   float32,
                 tf_cast (ConvolutionalValueOrMovesLeftHead (spec_layers example_maths)
                            3 32 128 True False 1 trunk) float32,
                 tf_cast (ConvolutionalValueOrMovesLeftHead (spec_layers example_maths)
                            1 8 128 True True 1 trunk) float32))"
  using call_tower_then_heads [of "spec_layers example_maths" 1 1 8 True "1::real" 1 "1/100" 1
      example_input]
  by (simp add: example_input_shape)

text \<open>
  Claim C5. Whatever the layers compute and in whatever element type, every
  output the forward pass returns (policy, value, moves-left) has element type
  float32; and for an input of 7168 elements per sample the forward pass does
  return its three outputs.
\<close>

theorem call_outputs_float32:
  "(shape x = b # rest \<and> prod_list rest = 112 * 8 * 8 \<longrightarrow>
      (\<exists>p v ml. call (LeelaZeroNet_init tfl nf n se cn wp wv wm) \<theta> x = Inr (p, v, ml)))
   \<and> (\<forall>p v ml. call (LeelaZeroNet_init tfl nf n se cn wp wv wm) \<theta> x = Inr (p, v, ml) \<longrightarrow>
         dtype p = float32 \<and> dtype v = float32 \<and> dtype ml = float32)"
proof (intro conjI impI allI)
  assume "shape x = b # rest \<and> prod_list rest = 112 * 8 * 8"
  then show "\<exists>p v ml. call (LeelaZeroNet_init tfl nf n se cn wp wv wm) \<theta> x = Inr (p, v, ml)"
    using call_init_valid [of x b rest tfl nf n se cn \<theta> wp wv wm] by auto
next
  fix p v ml
  assume "call (LeelaZeroNet_init tfl nf n se cn wp wv wm) \<theta> x = Inr (p, v, ml)"
  then show "dtype p = float32" "dtype v = float32" "dtype ml = float32"
    by (auto simp: call_def tf_cast_def Let_def split: sum.splits)
qed

text \<open>
  The example layers compute in float16; the three outputs on the example
  batch are float32.
\<close>

theorem call_outputs_float32_witness:
  "shape example_input = 1 # [7168] \<and> prod_list [7168::nat] = 112 * 8 * 8
   \<and> compute_dtype example_maths = float16
   \<and> (\<exists>p v ml. call (LeelaZeroNet_init (spec_layers example_maths) 1 1 8 True (1::real) 1 (1/100))
                  1 example_input = Inr (p, v, ml)
         \<and> dtype p = float32 \<and> dtype v = float32 \<and> dtype ml = float32)"
  using call_outputs_float32 [of example_input 1 "[7168]" "spec_layers example_maths" 1 1 8 True
      "1::real" 1 "1/100" 1]
  by (simp add: example_input_shape example_maths_values) blast

text \<open>
  Claim C6. With the heads as the specification describes them, for every
  input of 7168 elements per sample the moves-left output holds one scalar per
  sample and every one of them is at least 0, whatever the head's projection
  computes; the value output holds three numbers per sample, and they are the
  value head's projection as it is, with no clamp.
\<close>

theorem moves_left_clamped_value_unclamped:
  assumes "shape x = b # rest" and "prod_list rest = 7168"
  shows "\<exists>trunk p v ml.
           residual_tower_spec (spec_layers m) nf n se cn \<theta> x = Inr trunk
         \<and> call (LeelaZeroNet_init (spec_layers m) nf n se cn wp wv wm) \<theta> x = Inr (p, v, ml)
         \<and> shape ml = [b, 1] \<and> length (elems ml) = b \<and> (\<forall>y\<in>set (elems ml). 0 \<le> y)
         \<and> shape v = [b, 3]
         \<and> elems v = map (head_projection m 3 32 128 cn False \<theta> trunk) [0..<b * 3]"
proof -
  obtain trunk where t: "residual_tower_spec (spec_layers m) nf n se cn \<theta> x = Inr trunk"
    and s: "shape trunk = b # [nat nf, 8, 8]"
    using shape_spec_tower [OF assms, of m nf n se cn \<theta>] by auto
  show ?thesis
    using t by (auto simp: call_init_tower tf_cast_def spec_heads_of_trunk [OF s])
qed

text \<open>
  In the example the moves-left projection is \<open>-8\<close> and the output is 0, while
  the value output keeps its negative projections.
\<close>

theorem moves_left_clamped_value_unclamped_witness:
  "shape example_input = 1 # [7168] \<and> prod_list [7168::nat] = 7168
   \<and> head_projection example_maths 1 8 128 True True 1 example_input 0 = - 8
   \<and> (\<exists>p. call (LeelaZeroNet_init (spec_layers example_maths) 1 1 8 True (1::real) 1 (1/100)) 1
             example_input
           = Inr (p, \<lparr> dtype = float32, shape = [1, 3], elems = [-32, -31, -30] \<rparr>,
                     \<lparr> dtype = float32, shape = [1, 1], elems = [0] \<rparr>))"
  using moves_left_clamped_value_unclamped [of example_input 1 "[7168]" example_maths 1 1 8 True
      1 "1::real" 1 "1/100"]
  by (simp add: example_input_shape example_call example_maths_values)

text \<open>
  Claim C8. A network constructed with \<^verbatim>\<open>num_residual_blocks=0\<close> applies, to an
  input of 7168 elements per sample, the input block to the reshaped input and
  the three heads directly to the input block's output; and with the layers as
  the specification describes them the outputs have the contractual shapes:
  one vector over the move space, three numbers and one number per sample.
\<close>

theorem no_residual_blocks:
  assumes "shape x = b # rest" and "prod_list rest = 7168"
  shows "call (LeelaZeroNet_init tfl nf 0 se cn wp wv wm) \<theta> x =
           Inr (tf_cast (ConvolutionalPolicyHead tfl nf cn \<theta>
                           (ConvBlock tfl 3 nf cn True ''input_block'' \<theta>
                              (x\<lparr>shape := [b, 112, 8, 8]\<rparr>))) float32,
                tf_cast (ConvolutionalValueOrMovesLeftHead tfl 3 32 128 cn False \<theta>
                           (ConvBlock tfl 3 nf cn True ''input_block'' \<theta>
                              (x\<lparr>shape := [b, 112, 8, 8]\<rparr>))) float32,
                tf_cast (ConvolutionalValueOrMovesLeftHead tfl 1 8 128 cn True \<theta>
                           (ConvBlock tfl 3 nf cn True ''input_block'' \<theta>
                              (x\<lparr>shape := [b, 112, 8, 8]\<rparr>))) float32)
       \<and> (\<exists>p v ml. call (LeelaZeroNet_init (spec_layers m) nf 0 se cn wp wv wm) \<theta>' x
                       = Inr (p, v, ml)
             \<and> shape p = [b, policy_size m] \<and> shape v = [b, 3] \<and> shape ml = [b, 1])"
proof
  show "call (LeelaZeroNet_init tfl nf 0 se cn wp wv wm) \<theta> x =
           Inr (tf_cast (ConvolutionalPolicyHead tfl nf cn \<theta>
                           (ConvBlock tfl 3 nf cn True ''input_block'' \<theta>
                              (x\<lparr>shape := [b, 112, 8, 8]\<rparr>))) float32,
                tf_cast (ConvolutionalValueOrMovesLeftHead tfl 3 32 128 cn False \<theta>
                           (ConvBlock tfl 3 nf cn True ''input_block'' \<theta>
                              (x\<lparr>shape := [b, 112, 8, 8]\<rparr>))) float32,
                tf_cast (ConvolutionalValueOrMovesLeftHead tfl 1 8 128 cn True \<theta>
                           (ConvBlock tfl 3 nf cn True ''input_block'' \<theta>
                              (x\<lparr>shape := [b, 112, 8, 8]\<rparr>))) float32)"
    by (simp add: call_init_tower residual_tower_spec_valid [OF assms])
next
  obtain trunk where t: "residual_tower_spec (spec_layers m) nf 0 se cn \<theta>' x = Inr trunk"
    and s: "shape trunk = b # [nat nf, 8, 8]"
    using shape_spec_tower [OF assms, of m nf 0 se cn \<theta>'] by auto
  show "\<exists>p v ml. call (LeelaZeroNet_init (spec_layers m) nf 0 se cn wp wv wm) \<theta>' x
                    = Inr (p, v, ml)
             \<and> shape p = [b, policy_size m] \<and> shape v = [b, 3] \<and> shape ml = [b, 1]"
    using t by (simp add: call_init_tower tf_cast_def spec_heads_of_trunk [OF s])
qed

text \<open>
  The example network without residual blocks on the example batch: the
  shapes are those of one sample, with the example's move space of size 4.
\<close>

theorem no_residual_blocks_witness:
  "shape example_input = 1 # [7168] \<and> prod_list [7168::nat] = 7168
   \<and> call (LeelaZeroNet_init (spec_layers example_maths) 1 0 8 True (1::real) 1 (1/100)) 1
        example_input
       = Inr (\<lparr> dtype = float32, shape = [1, 4], elems = [0, 1, 2, 3] \<rparr>,
              \<lparr> dtype = float32, shape = [1, 3], elems = [-32, -31, -30] \<rparr>,
              \<lparr> dtype = float32, shape = [1, 1], elems = [0] \<rparr>)
   \<and> policy_size example_maths = 4"
  using no_residual_blocks [of example_input 1 "[7168]" "spec_layers example_maths" 1 8 True
      "1::real" 1 "1/100" 1 example_maths 1]
  by (simp add: example_input_shape example_call_no_blocks example_maths_values)

section \<open>The training step: results\<close>

text \<open>
  Claim C1. For every batch whose input the forward pass accepts and every
  weight triple given at construction, the training step returns the dict of
  exactly four scalars: the three component losses of the forward pass's
  outputs against their targets, and the total
  \<open>w_p * policy_loss + w_v * value_loss + w_m * moves_left_loss\<close> of those
  same three values.
\<close>

theorem train_step_losses:
  fixes w_p w_v w_m :: "'s::{times,plus}"
  assumes "shape input_planes = b # rest" and "prod_list rest = 7168"
  shows "\<exists>policy_out value_out moves_left_out state'.
           call (LeelaZeroNet_init tfl nf n se cn w_p w_v w_m) \<theta> input_planes
             = Inr (policy_out, value_out, moves_left_out)
         \<and> train_step losses opt tape_gradient global_policy_name
             (LeelaZeroNet_init tfl nf n se cn w_p w_v w_m) (\<sigma>, \<theta>)
             (input_planes, policy_target, wdl_target, moves_left_target)
             = Inr ([(''policy_loss'', policy_loss losses policy_target policy_out),
                     (''value_loss'', value_loss losses wdl_target value_out),
                     (''moves_left_loss'', moves_left_loss losses moves_left_target moves_left_out),
                     (''loss'',
                        w_p * policy_loss losses policy_target policy_out
                        + w_v * value_loss losses wdl_target value_out
                        + w_m * moves_left_loss losses moves_left_target moves_left_out)],
                    state')"
proof -
  obtain trunk where
    "call (LeelaZeroNet_init tfl nf n se cn w_p w_v w_m) \<theta> input_planes =
       Inr (tf_cast (ConvolutionalPolicyHead tfl nf cn \<theta> trunk) float32,
            tf_cast (ConvolutionalValueOrMovesLeftHead tfl 3 32 128 cn False \<theta> trunk) float32,
            tf_cast (ConvolutionalValueOrMovesLeftHead tfl 1 8 128 cn True \<theta> trunk) float32)"
    using call_init_valid [OF assms, of tfl nf n se cn \<theta> w_p w_v w_m] by blast
  then show ?thesis
    by (simp add: train_step_def Let_def)
qed

text \<open>
  The example step with the default weights 1, 1 and 1/100: the component
  losses are 5, 94 and 30.
\<close>

theorem train_step_losses_witness:
  "shape example_input = 1 # [7168] \<and> prod_list [7168::nat] = 7168
   \<and> (\<exists>state'. train_step example_losses example_optimizer (\<lambda>target \<theta>. target) ''float32''
        (LeelaZeroNet_init (spec_layers example_maths) 1 1 8 True 1 1 (1/100)) (2, 1)
        (example_input, example_targets)
       = Inr ([(''policy_loss'', 5), (''value_loss'', 94), (''moves_left_loss'', 30),
               (''loss'', 1 * 5 + 1 * 94 + (1/100) * 30)], state'))"
  using train_step_losses [of example_input 1 "[7168]" "spec_layers example_maths" 1 1 8 True
      "1::real" 1 "1/100" 1 example_losses example_optimizer "\<lambda>target \<theta>. target" "''float32''" 2
      "fst example_targets" "fst (snd example_targets)" "snd (snd example_targets)"]
  by (simp add: example_call example_input_shape example_targets_def example_losses_def)

text \<open>
  Claim C2. The state after the training step is what the optimizer's
  \<^verbatim>\<open>apply_gradients\<close> returns for one list of gradients, chosen by the
  precision policy alone. Under the policy \<^verbatim>\<open>mixed_float16\<close> (the
  reduced-precision mode train.py sets for \<^verbatim>\<open>--mixed_precision\<close>) they are the
  gradients of the scaled total loss, unscaled before they are applied; under
  every other policy they are the gradients of the total loss itself.
\<close>

theorem train_step_gradient_paths:
  fixes w_p w_v w_m :: "'s::{times,plus}"
  assumes "shape input_planes = b # rest" and "prod_list rest = 7168"
  shows "\<exists>policy_out value_out moves_left_out metrics.
           call (LeelaZeroNet_init tfl nf n se cn w_p w_v w_m) \<theta> input_planes
             = Inr (policy_out, value_out, moves_left_out)
         \<and> (let total_loss =
                   w_p * policy_loss losses policy_target policy_out
                   + w_v * value_loss losses wdl_target value_out
                   + w_m * moves_left_loss losses moves_left_target moves_left_out
            in (global_policy_name = ''mixed_float16'' \<longrightarrow>
                  train_step losses opt tape_gradient global_policy_name
                    (LeelaZeroNet_init tfl nf n se cn w_p w_v w_m) (\<sigma>, \<theta>)
                    (input_planes, policy_target, wdl_target, moves_left_target)
                  = Inr (metrics,
                         apply_gradients opt \<sigma>
                           (get_unscaled_gradients opt \<sigma>
                              (tape_gradient (get_scaled_loss opt \<sigma> total_loss) \<theta>)) \<theta>))
             \<and> (global_policy_name \<noteq> ''mixed_float16'' \<longrightarrow>
                  train_step losses opt tape_gradient global_policy_name
                    (LeelaZeroNet_init tfl nf n se cn w_p w_v w_m) (\<sigma>, \<theta>)
                    (input_planes, policy_target, wdl_target, moves_left_target)
                  = Inr (metrics, apply_gradients opt \<sigma> (tape_gradient total_loss \<theta>) \<theta>)))"
proof -
  obtain trunk where
    "call (LeelaZeroNet_init tfl nf n se cn w_p w_v w_m) \<theta> input_planes =
       Inr (tf_cast (ConvolutionalPolicyHead tfl nf cn \<theta> trunk) float32,
            tf_cast (ConvolutionalValueOrMovesLeftHead tfl 3 32 128 cn False \<theta> trunk) float32,
            tf_cast (ConvolutionalValueOrMovesLeftHead tfl 1 8 128 cn True \<theta> trunk) float32)"
    using call_init_valid [OF assms, of tfl nf n se cn \<theta> w_p w_v w_m] by blast
  then show ?thesis
    by (simp add: train_step_def Let_def)
qed

text \<open>
  The example step under both policies, with loss scale 2 and total loss
  993/10: under \<^verbatim>\<open>mixed_float16\<close> the gradient applied is the scaled one divided
  by the scale again, under \<^verbatim>\<open>float32\<close> it is the plain one.
\<close>

theorem train_step_gradient_paths_witness:
  "shape example_input = 1 # [7168] \<and> prod_list [7168::nat] = 7168
   \<and> (\<exists>metrics. train_step example_losses example_optimizer (\<lambda>target \<theta>. target) ''mixed_float16''
        (LeelaZeroNet_init (spec_layers example_maths) 1 1 8 True 1 1 (1/100)) (2, 1)
        (example_input, example_targets)
       = Inr (metrics, (2, 1 - ((2 * (993/10)) / 2) / 10)))
   \<and> (\<exists>metrics. train_step example_losses example_optimizer (\<lambda>target \<theta>. target) ''float32''
        (LeelaZeroNet_init (spec_layers example_maths) 1 1 8 True 1 1 (1/100)) (2, 1)
        (example_input, example_targets)
       = Inr (metrics, (2, 1 - (993/10) / 10)))"
  using train_step_gradient_paths [of example_input 1 "[7168]" "spec_layers example_maths" 1 1 8
      True "1::real" 1 "1/100" 1 example_losses "fst example_targets" "fst (snd example_targets)"
      "snd (snd example_targets)" "''mixed_float16''" example_optimizer "\<lambda>target \<theta>. target" 2]
    train_step_gradient_paths [of example_input 1 "[7168]" "spec_layers example_maths" 1 1 8
      True "1::real" 1 "1/100" 1 example_losses "fst example_targets" "fst (snd example_targets)"
      "snd (snd example_targets)" "''float32''" example_optimizer "\<lambda>target \<theta>. target" 2]
  by (simp add: example_call example_input_shape example_targets_def example_losses_def
      example_optimizer_def Let_def)

end
